theory Spec2Isabelle
  imports
    Complex_Main
    "HOL-Library.Multiset"
    "HOL-Library.List_Lexorder"
    "HOL-Library.Char_ord"
begin

section \<open>Minecraft World Analytics: the filter-and-aggregate pipeline of project.py\<close>

text \<open>
  The dashboard script builds four pandas tables once (\<open>generate_data\<close>), masks them with
  the sidebar parameters (the block "GLOBAL FILTERING") and computes scalar metrics and
  chart tables from the masked tables. The embedding below keeps the source's names.

  Conventions of the embedding:
  \<^item> a DataFrame is the list of its rows, in row order; a row is a record;
  \<^item> Python \<open>int\<close> is \<open>int\<close>, a row count is \<open>nat\<close>, a Python \<open>str\<close> is \<open>string\<close>;
  \<^item> \<open>float64\<close> values are \<open>real\<close> numbers. Rounding is not modelled; where a
    rounded sum decides an order (the top-players table) the summation is a parameter;
  \<^item> an exception is a value \<open>Inl e\<close> of a sum type.
\<close>

subsection \<open>Data model\<close>

datatype error = ValueError | ZeroDivisionError | KeyError

record activity_row =
  a_day :: int
  a_player :: string
  a_hours_played :: real
  a_style :: string
  a_mode :: string

record mining_row =
  m_day :: int
  m_player :: string
  m_resource :: string
  m_y_level :: int
  m_biome :: string
  m_mode :: string

record economy_row =
  e_day :: int
  e_player :: string
  e_balance :: real
  e_mode :: string
  e_cheater :: bool

record deaths_row =
  d_day :: int
  d_player :: string
  d_cause :: string
  d_mode :: string

text \<open>The four tables travel together, raw (\<open>activity, mining, economy, deaths\<close>) as well
  as filtered (\<open>activity_f, mining_f, economy_f, deaths_f\<close>).\<close>

record tables =
  activity :: "activity_row list"
  mining :: "mining_row list"
  economy :: "economy_row list"
  deaths :: "deaths_row list"

text \<open>The sidebar widgets (lines 70-93).\<close>

record params =
  mode :: string
  day_range :: "int \<times> int"
  selected_biomes :: "string list"
  selected_resources :: "string list"
  active_only :: bool
  honest_only :: bool

subsection \<open>Global filtering (lines 97-123)\<close>

text \<open>\<open>Series.between(left, right)\<close> is inclusive on both ends.\<close>

definition between :: "int \<Rightarrow> int \<times> int \<Rightarrow> bool" where
  "between x r = (fst r \<le> x \<and> x \<le> snd r)"

text \<open>\<open>Series.isin(values)\<close>.\<close>

definition isin :: "'a \<Rightarrow> 'a list \<Rightarrow> bool" where
  "isin x vs = (x \<in> set vs)"

definition activity_filter :: "params \<Rightarrow> activity_row list \<Rightarrow> activity_row list" where
  "activity_filter p t =
     (let activity_f = filter (\<lambda>r. between (a_day r) (day_range p) \<and> a_mode r = mode p) t
      in if active_only p then filter (\<lambda>r. 2 < a_hours_played r) activity_f
         else activity_f)"

definition mining_filter :: "params \<Rightarrow> mining_row list \<Rightarrow> mining_row list" where
  "mining_filter p t =
     filter (\<lambda>r. between (m_day r) (day_range p) \<and> m_mode r = mode p \<and>
                 isin (m_biome r) (selected_biomes p) \<and>
                 isin (m_resource r) (selected_resources p)) t"

definition economy_filter :: "params \<Rightarrow> economy_row list \<Rightarrow> economy_row list" where
  "economy_filter p t =
     (let economy_f = filter (\<lambda>r. between (e_day r) (day_range p) \<and> e_mode r = mode p) t
      in if honest_only p then filter (\<lambda>r. \<not> e_cheater r) economy_f
         else economy_f)"

definition deaths_filter :: "params \<Rightarrow> deaths_row list \<Rightarrow> deaths_row list" where
  "deaths_filter p t =
     filter (\<lambda>r. between (d_day r) (day_range p) \<and> d_mode r = mode p) t"

definition filter_tables :: "params \<Rightarrow> tables \<Rightarrow> tables" where
  "filter_tables p raw =
     \<lparr>activity = activity_filter p (activity raw),
      mining = mining_filter p (mining raw),
      economy = economy_filter p (economy raw),
      deaths = deaths_filter p (deaths raw)\<rparr>"

text \<open>
  The block has no \<open>raise\<close> and no check of its parameters; comparison, \<open>between\<close>,
  \<open>isin\<close> and boolean indexing do not raise on these columns. As a step of the script it
  therefore always takes the normal exit.
\<close>

definition global_filtering :: "params \<Rightarrow> tables \<Rightarrow> error + tables" where
  "global_filtering p raw = Inr (filter_tables p raw)"

text \<open>The options offered by the two multiselect widgets (lines 80-90):
  \<open>sorted(mining["biome"].unique())\<close>, also their default selection.\<close>

definition biome_options :: "mining_row list \<Rightarrow> string list" where
  "biome_options t = sort (remdups (map m_biome t))"

definition resource_options :: "mining_row list \<Rightarrow> string list" where
  "resource_options t = sort (remdups (map m_resource t))"

subsection \<open>The pandas operations used by the metrics and the charts\<close>

text \<open>\<open>Series.nunique()\<close>: the number of distinct values.\<close>

definition nunique :: "'a list \<Rightarrow> nat" where
  "nunique xs = length (remdups xs)"

text \<open>
  True division \<open>a / b\<close>. On Python numbers a zero divisor raises \<open>ZeroDivisionError\<close>;
  a \<open>float64\<close> dividend would give \<open>inf\<close> or \<open>nan\<close> with a warning instead. Both are the
  failure branch here, so that "does not fail" below covers either reading.
\<close>

definition truediv :: "real \<Rightarrow> real \<Rightarrow> error + real" where
  "truediv a b = (if b = 0 then Inl ZeroDivisionError else Inr (a / b))"

text \<open>
  \<open>Series.sort_values(ascending=False)\<close> on a series of (label, value) rows. The script
  passes no \<open>kind\<close>, so pandas sorts with its default \<open>quicksort\<close>, which it documents as
  not stable; the order it gives to equal values is not fixed by the script. The sorting
  routine is therefore a parameter of the definitions that sort, and what is known of it
  is \<open>sort_values_spec\<close>: the rows are permuted into descending order of value.
\<close>

type_synonym ('k, 'v) sort_values = "('k \<times> 'v) list \<Rightarrow> ('k \<times> 'v) list"

definition descending :: "('k \<times> 'v::linorder) list \<Rightarrow> bool" where
  "descending xs = sorted_wrt (\<lambda>a b. snd b \<le> snd a) xs"

definition sort_values_spec :: "('k, 'v::linorder) sort_values \<Rightarrow> bool" where
  "sort_values_spec srt = (\<forall>xs. mset (srt xs) = mset xs \<and> descending (srt xs))"


text \<open>A stable routine that meets \<open>sort_values_spec\<close>.\<close>

definition stable_sort_values :: "('k, 'v::linorder) sort_values" where
  "stable_sort_values xs = rev (sort_key snd (rev xs))"

text \<open>\<open>Series.unique()\<close>: the distinct values in order of first appearance.\<close>

definition unique :: "'a list \<Rightarrow> 'a list" where
  "unique xs = rev (remdups (rev xs))"

text \<open>\<open>Series.value_counts()\<close>: one row per distinct value with its number of
  occurrences, sorted by descending count.\<close>

definition value_counts :: "('a, nat) sort_values \<Rightarrow> 'a list \<Rightarrow> ('a \<times> nat) list" where
  "value_counts srt xs = srt (map (\<lambda>v. (v, count_list xs v)) (unique xs))"

text \<open>\<open>Series.idxmax()\<close>: the label of the first row holding the maximum; on an empty
  series it raises \<open>ValueError\<close>.\<close>

fun argmax_from :: "('a \<times> nat) \<Rightarrow> ('a \<times> nat) list \<Rightarrow> 'a \<times> nat" where
  "argmax_from best [] = best"
| "argmax_from best (x # xs) =
     (if snd best < snd x then argmax_from x xs else argmax_from best xs)"

fun idxmax :: "('a \<times> nat) list \<Rightarrow> error + 'a" where
  "idxmax [] = Inl ValueError"
| "idxmax (x # xs) = Inr (fst (argmax_from x xs))"

subsection \<open>Statistics tab: metrics calculation (lines 142-166)\<close>

text \<open>Each metric is a definition named after the variable the script assigns; the
  argument \<open>f\<close> holds the filtered tables.\<close>

definition unique_players :: "tables \<Rightarrow> nat" where
  "unique_players f = nunique (map a_player (activity f))"

definition total_playtime :: "tables \<Rightarrow> real" where
  "total_playtime f = sum_list (map a_hours_played (activity f))"

definition avg_playtime :: "tables \<Rightarrow> error + real" where
  "avg_playtime f =
     (if 0 < unique_players f then truediv (total_playtime f) (real (unique_players f))
      else Inr 0)"

definition mining_events :: "tables \<Rightarrow> nat" where
  "mining_events f = length (mining f)"

definition deaths_count :: "tables \<Rightarrow> nat" where
  "deaths_count f = length (deaths f)"

definition chaos_index :: "tables \<Rightarrow> error + real" where
  "chaos_index f =
     (if 0 < unique_players f then truediv (real (deaths_count f)) (real (unique_players f))
      else Inr 0)"

text \<open>The placeholder of an empty Mining table is the one-character string U+2014 (an
  em dash), here its three UTF-8 bytes.\<close>

definition dash :: string where
  "dash = [CHR 0xE2, CHR 0x80, CHR 0x94]"

definition top_biome :: "(string, nat) sort_values \<Rightarrow> tables \<Rightarrow> error + string" where
  "top_biome srt f =
     (if mining f \<noteq> [] then idxmax (value_counts srt (map m_biome (mining f)))
      else Inr dash)"

definition top_resource :: "(string, nat) sort_values \<Rightarrow> tables \<Rightarrow> error + string" where
  "top_resource srt f =
     (if mining f \<noteq> [] then idxmax (value_counts srt (map m_resource (mining f)))
      else Inr dash)"

record kpis =
  kpi_unique_players :: nat
  kpi_total_playtime :: real
  kpi_avg_playtime :: real
  kpi_mining_events :: nat
  kpi_deaths_count :: nat
  kpi_chaos_index :: real
  kpi_top_biome :: string
  kpi_top_resource :: string

text \<open>The block as a whole: the assignments in the script's order; the first one that
  raises ends the block.\<close>

definition statistics_tab :: "(string, nat) sort_values \<Rightarrow> tables \<Rightarrow> error + kpis" where
  "statistics_tab srt f =
     (case avg_playtime f of Inl e \<Rightarrow> Inl e | Inr avg \<Rightarrow>
      case chaos_index f of Inl e \<Rightarrow> Inl e | Inr chaos \<Rightarrow>
      case top_biome srt f of Inl e \<Rightarrow> Inl e | Inr biome \<Rightarrow>
      case top_resource srt f of Inl e \<Rightarrow> Inl e | Inr resource \<Rightarrow>
        Inr \<lparr>kpi_unique_players = unique_players f,
             kpi_total_playtime = total_playtime f,
             kpi_avg_playtime = avg,
             kpi_mining_events = mining_events f,
             kpi_deaths_count = deaths_count f,
             kpi_chaos_index = chaos,
             kpi_top_biome = biome,
             kpi_top_resource = resource\<rparr>)"

subsection \<open>Chaos tab (line 326)\<close>

definition chaos_index_tab5 :: "tables \<Rightarrow> error + real" where
  "chaos_index_tab5 f =
     truediv (real (length (deaths f)))
       (real (max (nunique (map a_player (activity f))) 1))"

subsection \<open>Player Analytics tab: top players (lines 227-233)\<close>

text \<open>\<open>activity_f.groupby("player")["hours_played"].sum()\<close>: one row per player with the
  sum of that player's hours; \<open>groupby\<close> sorts the group keys (its default
  \<open>sort=True\<close>), so the rows are in ascending order of player name. pandas adds the
  hours of a group in \<open>float64\<close>, which is not the exact sum; the summation of one
  group's hours, taken in row order, is therefore the parameter \<open>fsum\<close>.\<close>

definition groupby_player_sum ::
  "(real list \<Rightarrow> real) \<Rightarrow> activity_row list \<Rightarrow> (string \<times> real) list" where
  "groupby_player_sum fsum t =
     map (\<lambda>k. (k, fsum (map a_hours_played (filter (\<lambda>r. a_player r = k) t))))
       (sort (remdups (map a_player t)))"

text \<open>\<open>.sort_values(ascending=False).head(15).reset_index()\<close>; \<open>reset_index\<close> turns the
  labelled series into the two-column table that a list of pairs already is.\<close>

definition top_players ::
  "(string, real) sort_values \<Rightarrow> (real list \<Rightarrow> real) \<Rightarrow> activity_row list
     \<Rightarrow> (string \<times> real) list" where
  "top_players srt fsum activity_f = take 15 (srt (groupby_player_sum fsum activity_f))"

subsection \<open>The sort behind \<open>sort_values\<close>: numpy's quicksort\<close>

text \<open>
  For a \<open>float64\<close> series without missing values \<open>sort_values(ascending=False)\<close>
  reverses the values, calls \<open>numpy.argsort(kind="quicksort")\<close> and reverses the
  resulting order. The definitions below follow numpy's scalar \<open>aquicksort\<close>: it sorts an
  array \<open>tosort\<close> of positions (here \<open>t\<close>) by the values \<open>v\<close> they point to; a range of
  more than 17 positions is split around the median of its first, middle and last value,
  a shorter range is sorted by insertion. The pointers \<open>pl\<close>, \<open>pr\<close>, \<open>pm\<close>, \<open>pi\<close>, \<open>pj\<close>,
  \<open>pk\<close> are offsets into \<open>t\<close>; \<open>pi\<close>, \<open>pj\<close>, \<open>pk\<close> are written \<open>ip\<close>, \<open>jp\<close>, \<open>kp\<close>.
  (Builds of numpy for processors with vector instructions may choose a vectorised
  routine at run time; like this one it is not stable.)
\<close>

definition swap :: "nat list \<Rightarrow> nat \<Rightarrow> nat \<Rightarrow> nat list" where
  "swap t i j = t[i := t ! j, j := t ! i]"

text \<open>\<open>npy_get_msb\<close>: the position of the highest set bit.\<close>

fun npy_get_msb :: "nat \<Rightarrow> nat" where
  "npy_get_msb n = (if n < 2 then 0 else Suc (npy_get_msb (n div 2)))"

declare npy_get_msb.simps [simp del]

text \<open>The two inner loops of the partition, \<open>do ++pi while (v[*pi] < vp)\<close> and
  \<open>do --pj while (vp < v[*pj])\<close>: the position where each stops. In the routine the
  pivot and the median step stop them inside the range.\<close>

definition scan_up :: "'v::linorder list \<Rightarrow> nat list \<Rightarrow> 'v \<Rightarrow> nat \<Rightarrow> nat" where
  "scan_up v t vp ip =
     ip + 1 + length (takeWhile (\<lambda>i. v ! (t ! i) < vp) [ip + 1 ..< length t])"

definition scan_down :: "'v::linorder list \<Rightarrow> nat list \<Rightarrow> 'v \<Rightarrow> nat \<Rightarrow> nat" where
  "scan_down v t vp jp =
     jp - 1 - length (takeWhile (\<lambda>i. vp < v ! (t ! i)) (rev [0 ..< jp]))"

text \<open>The loop \<open>for (;;)\<close> of the partition: scan, stop when the scans meet, else swap.\<close>

function partition_loop ::
  "'v::linorder list \<Rightarrow> 'v \<Rightarrow> nat list \<Rightarrow> nat \<Rightarrow> nat \<Rightarrow> nat list \<times> nat" where
  "partition_loop v vp t ip jp =
     (let ip' = scan_up v t vp ip; jp' = scan_down v t vp jp in
      if jp' \<le> ip' then (t, ip') else partition_loop v vp (swap t ip' jp') ip' jp')"
  by pat_completeness auto
termination
  by (relation "measure (\<lambda>(v, vp, t, ip, jp). jp - ip)")
    (auto simp: scan_up_def scan_down_def)

text \<open>One partition of the range \<open>pl..pr\<close>: median of three, the pivot parked at
  \<open>pr - 1\<close>, the loop, the pivot put in its place; the result is the array and the
  pivot's place.\<close>

definition partition :: "'v::linorder list \<Rightarrow> nat list \<Rightarrow> nat \<Rightarrow> nat \<Rightarrow> nat list \<times> nat" where
  "partition v t pl pr =
     (let pm = pl + (pr - pl) div 2;
          t1 = (if v ! (t ! pm) < v ! (t ! pl) then swap t pm pl else t);
          t2 = (if v ! (t1 ! pr) < v ! (t1 ! pm) then swap t1 pr pm else t1);
          t3 = (if v ! (t2 ! pm) < v ! (t2 ! pl) then swap t2 pm pl else t2);
          vp = v ! (t3 ! pm);
          t4 = swap t3 pm (pr - 1);
          r = partition_loop v vp t4 pl (pr - 1)
      in (swap (fst r) (snd r) (pr - 1), snd r))"

text \<open>Insertion sort of the range \<open>pl..pr\<close>: the position \<open>vi\<close> found at \<open>ip\<close> moves
  left past every position whose value is strictly greater.\<close>

fun shift_in :: "'v::linorder list \<Rightarrow> nat \<Rightarrow> nat \<Rightarrow> nat list \<Rightarrow> nat \<Rightarrow> nat list" where
  "shift_in v vi pl t 0 = t[0 := vi]"
| "shift_in v vi pl t (Suc kp) =
     (if pl < Suc kp \<and> v ! vi < v ! (t ! kp) then shift_in v vi pl (t[Suc kp := t ! kp]) kp
      else t[Suc kp := vi])"

definition insertion_sort :: "'v::linorder list \<Rightarrow> nat list \<Rightarrow> nat \<Rightarrow> nat \<Rightarrow> nat list" where
  "insertion_sort v t pl pr =
     fold (\<lambda>ip t. shift_in v (t ! ip) pl t ip) [pl + 1 ..< pr + 1] t"

text \<open>
  The routine on one range. \<open>cdepth\<close> is the depth budget, \<open>2 * npy_get_msb num\<close> at the
  start and one less after each partition. The smaller part is sorted at once, the
  larger one is pushed on the stack and sorted when it is popped; a popped range whose
  budget is spent goes to heapsort, which is the parameter \<open>hs\<close>. The test
  \<open>pl < ip \<and> ip < pr\<close> always holds in the routine and keeps the recursion inside the
  range.
\<close>

type_synonym 'v aheapsort = "'v list \<Rightarrow> nat list \<Rightarrow> nat \<Rightarrow> nat \<Rightarrow> nat list"

function aquicksort_range ::
  "'v::linorder aheapsort \<Rightarrow> 'v list \<Rightarrow> bool \<Rightarrow> int \<Rightarrow> nat list \<Rightarrow> nat \<Rightarrow> nat \<Rightarrow> nat list"
  where
  "aquicksort_range hs v popped cdepth t pl pr =
     (if popped \<and> cdepth < 0 then hs v t pl pr
      else if 16 < pr - pl then
        (let r = partition v t pl pr; t' = fst r; ip = snd r in
         if pl < ip \<and> ip < pr then
           (if ip - pl < pr - ip
            then aquicksort_range hs v True (cdepth - 1)
                   (aquicksort_range hs v False (cdepth - 1) t' pl (ip - 1)) (ip + 1) pr
            else aquicksort_range hs v True (cdepth - 1)
                   (aquicksort_range hs v False (cdepth - 1) t' (ip + 1) pr) pl (ip - 1))
         else t')
      else insertion_sort v t pl pr)"
  by pat_completeness auto
termination
  by (relation "measure (\<lambda>(hs, v, popped, cdepth, t, pl, pr). pr - pl)") auto

text \<open>\<open>numpy.argsort(v, kind="quicksort")\<close>: the positions of \<open>v\<close> in sorted order.\<close>

definition argsort_quicksort :: "'v::linorder aheapsort \<Rightarrow> 'v list \<Rightarrow> nat list" where
  "argsort_quicksort hs v =
     (let num = length v in
      if num = 0 then []
      else aquicksort_range hs v True (2 * int (npy_get_msb num)) [0 ..< num] 0 (num - 1))"

text \<open>\<open>sort_values(ascending=False)\<close> with this routine, as pandas' \<open>nargsort\<close> does it:
  the values reversed, sorted ascending, the order reversed again.\<close>

definition numpy_sort_values :: "'v::linorder aheapsort \<Rightarrow> ('k, 'v) sort_values" where
  "numpy_sort_values hs xs =
     (let nonnans = rev (map snd xs);
          nonnan_idx = rev [0 ..< length xs];
          indexer = rev (map (\<lambda>i. nonnan_idx ! i) (argsort_quicksort hs nonnans))
      in map (\<lambda>i. xs ! i) indexer)"

text \<open>A stand-in for heapsort, for inputs on which the depth budget is not spent.\<close>

definition no_heapsort :: "'v aheapsort" where
  "no_heapsort v t pl pr = t"

subsection \<open>Data generation (lines 19-62)\<close>

text \<open>
  \<open>generate_data\<close> draws every column from numpy's global random generator. Its sampling
  algorithm is outside the script, so the generator is a parameter: \<open>'g\<close> is the type of
  the generator's state, \<open>rng_seed n\<close> is the state that \<open>np.random.seed(n)\<close> installs, and
  each other field draws one sample and returns the next state.
\<close>

record 'g rng =
  rng_seed :: "nat \<Rightarrow> 'g"
  rng_integer :: "int \<Rightarrow> int \<Rightarrow> 'g \<Rightarrow> int \<times> 'g"
  rng_pick_str :: "string list \<Rightarrow> real list option \<Rightarrow> 'g \<Rightarrow> string \<times> 'g"
  rng_pick_bool :: "bool list \<Rightarrow> real list option \<Rightarrow> 'g \<Rightarrow> bool \<times> 'g"
  rng_gamma :: "real \<Rightarrow> real \<Rightarrow> 'g \<Rightarrow> real \<times> 'g"
  rng_lognormal :: "real \<Rightarrow> real \<Rightarrow> 'g \<Rightarrow> real \<times> 'g"

text \<open>A column of \<open>k\<close> samples, drawn one after the other.\<close>

fun draw :: "('g \<Rightarrow> 'a \<times> 'g) \<Rightarrow> nat \<Rightarrow> 'g \<Rightarrow> 'a list \<times> 'g" where
  "draw f 0 g = ([], g)"
| "draw f (Suc k) g =
     (let r = f g; rs = draw f k (snd r) in (fst r # fst rs, snd rs))"

text \<open>A statement that may raise and that updates the generator; \<open>bindE\<close> runs one
  after another and stops at the first exception.\<close>

type_synonym ('a, 'g) stmt = "'g \<Rightarrow> error + ('a \<times> 'g)"

definition bindE :: "('a, 'g) stmt \<Rightarrow> ('a \<Rightarrow> ('b, 'g) stmt) \<Rightarrow> ('b, 'g) stmt" where
  "bindE m k g = (case m g of Inl e \<Rightarrow> Inl e | Inr r \<Rightarrow> k (fst r) (snd r))"

text \<open>
  The numpy calls with the argument checks that numpy makes before it samples; each
  failed check raises \<open>ValueError\<close>:
  \<^item> \<open>np.random.seed(n)\<close> wants \<open>0 \<le> n < 2^32\<close> and replaces the global state;
  \<^item> \<open>np.random.randint(low, high, size)\<close> returns the empty array for \<open>size = 0\<close>, and
    otherwise wants \<open>low < high\<close> and a non-negative \<open>size\<close>;
  \<^item> \<open>np.random.choice(a, size, p=p)\<close> wants a non-empty \<open>a\<close> unless no sample is
    taken, a \<open>p\<close> (if given) of the length of \<open>a\<close> with non-negative entries summing to 1,
    and a non-negative \<open>size\<close>;
  \<^item> \<open>np.random.gamma(shape, scale, size)\<close> and \<open>np.random.lognormal(mean, sigma, size)\<close>
    want non-negative \<open>shape\<close>, \<open>scale\<close>, \<open>sigma\<close> and a non-negative \<open>size\<close>.

  The argument \<open>size\<close> is written \<open>sz\<close>. Where two checks of one call fail together
  they raise the same exception, so the order among them does not show in the result.
\<close>

definition seed :: "'g rng \<Rightarrow> int \<Rightarrow> (unit, 'g) stmt" where
  "seed R n g =
     (if n < 0 \<or> 2 ^ 32 \<le> n then Inl ValueError else Inr ((), rng_seed R (nat n)))"

definition randint :: "'g rng \<Rightarrow> int \<Rightarrow> int \<Rightarrow> int \<Rightarrow> (int list, 'g) stmt" where
  "randint R low high sz g =
     (if sz = 0 then Inr ([], g)
      else if high \<le> low then Inl ValueError
      else if sz < 0 then Inl ValueError
      else Inr (draw (rng_integer R low high) (nat sz) g))"

definition valid_p :: "'a list \<Rightarrow> real list option \<Rightarrow> bool" where
  "valid_p a p =
     (case p of None \<Rightarrow> True
      | Some ps \<Rightarrow> length ps = length a \<and> list_all (\<lambda>x. 0 \<le> x) ps \<and> sum_list ps = 1)"

definition choice ::
  "('a list \<Rightarrow> real list option \<Rightarrow> 'g \<Rightarrow> 'a \<times> 'g) \<Rightarrow> 'a list \<Rightarrow> int \<Rightarrow> real list option
     \<Rightarrow> ('a list, 'g) stmt" where
  "choice pick a sz p g =
     (if a = [] \<and> sz \<noteq> 0 then Inl ValueError
      else if \<not> valid_p a p then Inl ValueError
      else if sz < 0 then Inl ValueError
      else Inr (draw (pick a p) (nat sz) g))"

definition gamma :: "'g rng \<Rightarrow> real \<Rightarrow> real \<Rightarrow> int \<Rightarrow> (real list, 'g) stmt" where
  "gamma R shape scale sz g =
     (if shape < 0 \<or> scale < 0 then Inl ValueError
      else if sz < 0 then Inl ValueError
      else Inr (draw (rng_gamma R shape scale) (nat sz) g))"

definition lognormal :: "'g rng \<Rightarrow> real \<Rightarrow> real \<Rightarrow> int \<Rightarrow> (real list, 'g) stmt" where
  "lognormal R mean sigma sz g =
     (if sigma < 0 then Inl ValueError
      else if sz < 0 then Inl ValueError
      else Inr (draw (rng_lognormal R mean sigma) (nat sz) g))"

text \<open>\<open>str(i)\<close> for the f-string \<open>f"Player_{i}"\<close>.\<close>

fun str_nat :: "nat \<Rightarrow> string" where
  "str_nat n =
     (if n < 10 then [char_of (48 + n)]
      else str_nat (n div 10) @ [char_of (48 + n mod 10)])"

declare str_nat.simps [simp del]

definition str_int :: "int \<Rightarrow> string" where
  "str_int i = (if i < 0 then CHR ''-'' # str_nat (nat (- i)) else str_nat (nat i))"

text \<open>\<open>pd.DataFrame({...})\<close> from columns of one length: the rows, position by position.\<close>

definition activity_frame ::
  "int list \<Rightarrow> string list \<Rightarrow> real list \<Rightarrow> string list \<Rightarrow> string list \<Rightarrow> activity_row list"
  where
  "activity_frame day player hours_played style md =
     map (\<lambda>(d, p, h, s, m).
            \<lparr>a_day = d, a_player = p, a_hours_played = h, a_style = s, a_mode = m\<rparr>)
       (zip day (zip player (zip hours_played (zip style md))))"

definition mining_frame ::
  "int list \<Rightarrow> string list \<Rightarrow> string list \<Rightarrow> int list \<Rightarrow> string list \<Rightarrow> string list
     \<Rightarrow> mining_row list" where
  "mining_frame day player resource y_level biome md =
     map (\<lambda>(d, p, r, y, b, m).
            \<lparr>m_day = d, m_player = p, m_resource = r, m_y_level = y, m_biome = b,
             m_mode = m\<rparr>)
       (zip day (zip player (zip resource (zip y_level (zip biome md)))))"

definition economy_frame ::
  "int list \<Rightarrow> string list \<Rightarrow> real list \<Rightarrow> string list \<Rightarrow> bool list \<Rightarrow> economy_row list"
  where
  "economy_frame day player balance md cheater =
     map (\<lambda>(d, p, b, m, c).
            \<lparr>e_day = d, e_player = p, e_balance = b, e_mode = m, e_cheater = c\<rparr>)
       (zip day (zip player (zip balance (zip md cheater))))"

definition deaths_frame ::
  "int list \<Rightarrow> string list \<Rightarrow> string list \<Rightarrow> string list \<Rightarrow> deaths_row list" where
  "deaths_frame day player cause md =
     map (\<lambda>(d, p, c, m). \<lparr>d_day = d, d_player = p, d_cause = c, d_mode = m\<rparr>)
       (zip day (zip player (zip cause md)))"

definition styles :: "string list" where
  "styles = [''Builder'', ''Miner'', ''Fighter'', ''Explorer'']"

definition biomes :: "string list" where
  "biomes = [''Forest'', ''Plains'', ''Desert'', ''Mountains'', ''Swamp'', ''Nether'', ''End'']"

definition resources :: "string list" where
  "resources = [''Diamond'', ''Iron'', ''Gold'', ''Redstone'', ''Coal'']"

definition death_causes :: "string list" where
  "death_causes = [''Lava'', ''Creeper'', ''Fall'', ''PvP'', ''Skeleton'', ''Void'']"

definition modes :: "string list" where
  "modes = [''Survival'', ''Creative'', ''Hardcore'']"

text \<open>
  \<open>generate_data(n_players, max_days)\<close>. The last argument is the state of the global
  generator at the time of the call, the result holds the four tables and the state the
  call leaves behind. The decorator \<open>st.cache_data\<close> only saves a result for later calls
  with the same arguments and is not part of the embedding.
\<close>

definition generate_data :: "'g rng \<Rightarrow> int \<Rightarrow> int \<Rightarrow> (tables, 'g) stmt" where
  "generate_data R n_players max_days =
     bindE (seed R 42) (\<lambda>_.
     let players = map (\<lambda>i. ''Player_'' @ str_int i) [1..n_players] in
     bindE (randint R 1 (max_days + 1) (n_players * max_days)) (\<lambda>a_day.
     bindE (choice (rng_pick_str R) players (n_players * max_days) None) (\<lambda>a_player.
     bindE (gamma R 2.2 1.8 (n_players * max_days)) (\<lambda>a_hours_played.
     bindE (choice (rng_pick_str R) styles (n_players * max_days) None) (\<lambda>a_style.
     bindE (choice (rng_pick_str R) modes (n_players * max_days) (Some [0.55, 0.25, 0.20]))
       (\<lambda>a_mode.
     bindE (randint R 1 (max_days + 1) 12000) (\<lambda>m_day.
     bindE (choice (rng_pick_str R) players 12000 None) (\<lambda>m_player.
     bindE (choice (rng_pick_str R) resources 12000 (Some [0.08, 0.32, 0.18, 0.22, 0.20]))
       (\<lambda>m_resource.
     bindE (randint R (- 64) 128 12000) (\<lambda>m_y_level.
     bindE (choice (rng_pick_str R) biomes 12000 None) (\<lambda>m_biome.
     bindE (choice (rng_pick_str R) modes 12000 (Some [0.55, 0.25, 0.20])) (\<lambda>m_mode.
     bindE (randint R 1 (max_days + 1) (n_players * 8)) (\<lambda>e_day.
     bindE (choice (rng_pick_str R) players (n_players * 8) None) (\<lambda>e_player.
     bindE (lognormal R 3.2 0.9 (n_players * 8)) (\<lambda>e_balance.
     bindE (choice (rng_pick_str R) modes (n_players * 8) None) (\<lambda>e_mode.
     bindE (choice (rng_pick_bool R) [True, False] (n_players * 8) (Some [0.12, 0.88]))
       (\<lambda>e_cheater.
     bindE (randint R 1 (max_days + 1) 4000) (\<lambda>d_day.
     bindE (choice (rng_pick_str R) players 4000 None) (\<lambda>d_player.
     bindE (choice (rng_pick_str R) death_causes 4000 None) (\<lambda>d_cause.
     bindE (choice (rng_pick_str R) modes 4000 None) (\<lambda>d_mode.
     (\<lambda>g. Inr
        (\<lparr>activity = activity_frame a_day a_player a_hours_played a_style a_mode,
          mining = mining_frame m_day m_player m_resource m_y_level m_biome m_mode,
          economy = economy_frame e_day e_player e_balance e_mode e_cheater,
          deaths = deaths_frame d_day d_player d_cause d_mode\<rparr>, g))
     )))))))))))))))))))))"

text \<open>A toy generator whose state is a counter, used to run \<open>generate_data\<close>.\<close>

definition counter_rng :: "nat rng" where
  "counter_rng =
     \<lparr>rng_seed = (\<lambda>n. n),
      rng_integer = (\<lambda>low high g. (low + int g mod (high - low), Suc g)),
      rng_pick_str = (\<lambda>a p g. (a ! (g mod length a), Suc g)),
      rng_pick_bool = (\<lambda>a p g. (a ! (g mod length a), Suc g)),
      rng_gamma = (\<lambda>shape scale g. (shape * scale + real (g mod 3), Suc g)),
      rng_lognormal = (\<lambda>mean sigma g. (mean + real (g mod 5), Suc g))\<rparr>"

subsection \<open>Vocabulary of the statements about filtering\<close>

text \<open>The widest selection: every day of the generated range, every option of the two
  multiselect widgets, both check boxes off.\<close>

definition widest_no_flags :: "params \<Rightarrow> tables \<Rightarrow> int \<Rightarrow> bool" where
  "widest_no_flags p raw max_days =
     (day_range p = (1, max_days) \<and>
      selected_biomes p = biome_options (mining raw) \<and>
      selected_resources p = resource_options (mining raw) \<and>
      \<not> active_only p \<and> \<not> honest_only p)"

text \<open>The data-model invariant of the raw tables: every \<open>day\<close> lies in
  \<open>1..max_days\<close>.\<close>

definition days_within :: "tables \<Rightarrow> int \<Rightarrow> bool" where
  "days_within raw max_days =
     ((\<forall>r \<in> set (activity raw). 1 \<le> a_day r \<and> a_day r \<le> max_days) \<and>
      (\<forall>r \<in> set (mining raw). 1 \<le> m_day r \<and> m_day r \<le> max_days) \<and>
      (\<forall>r \<in> set (economy raw). 1 \<le> e_day r \<and> e_day r \<le> max_days) \<and>
      (\<forall>r \<in> set (deaths raw). 1 \<le> d_day r \<and> d_day r \<le> max_days))"

definition mode_subset :: "string \<Rightarrow> tables \<Rightarrow> tables" where
  "mode_subset m raw =
     \<lparr>activity = filter (\<lambda>r. a_mode r = m) (activity raw),
      mining = filter (\<lambda>r. m_mode r = m) (mining raw),
      economy = filter (\<lambda>r. e_mode r = m) (economy raw),
      deaths = filter (\<lambda>r. d_mode r = m) (deaths raw)\<rparr>"

definition no_rows :: tables where
  "no_rows = \<lparr>activity = [], mining = [], economy = [], deaths = []\<rparr>"

definition mode_absent :: "string \<Rightarrow> tables \<Rightarrow> bool" where
  "mode_absent m raw =
     ((\<forall>r \<in> set (activity raw). a_mode r \<noteq> m) \<and>
      (\<forall>r \<in> set (mining raw). m_mode r \<noteq> m) \<and>
      (\<forall>r \<in> set (economy raw). e_mode r \<noteq> m) \<and>
      (\<forall>r \<in> set (deaths raw). d_mode r \<noteq> m))"

text \<open>A small set of tables and some parameter sets, used to run the definitions.\<close>

definition demo_raw :: tables where
  "demo_raw =
     \<lparr>activity =
        [\<lparr>a_day = 1, a_player = ''Player_1'', a_hours_played = 5, a_style = ''Miner'', a_mode = ''Survival''\<rparr>,
         \<lparr>a_day = 1, a_player = ''Player_2'', a_hours_played = 3/2, a_style = ''Builder'', a_mode = ''Survival''\<rparr>,
         \<lparr>a_day = 2, a_player = ''Player_1'', a_hours_played = 10, a_style = ''Miner'', a_mode = ''Creative''\<rparr>],
      mining =
        [\<lparr>m_day = 1, m_player = ''Player_1'', m_resource = ''Iron'', m_y_level = -10, m_biome = ''Forest'', m_mode = ''Survival''\<rparr>,
         \<lparr>m_day = 2, m_player = ''Player_2'', m_resource = ''Coal'', m_y_level = 40, m_biome = ''Desert'', m_mode = ''Survival''\<rparr>,
         \<lparr>m_day = 2, m_player = ''Player_2'', m_resource = ''Gold'', m_y_level = 12, m_biome = ''Forest'', m_mode = ''Hardcore''\<rparr>],
      economy =
        [\<lparr>e_day = 1, e_player = ''Player_1'', e_balance = 20, e_mode = ''Survival'', e_cheater = True\<rparr>,
         \<lparr>e_day = 2, e_player = ''Player_2'', e_balance = 30, e_mode = ''Survival'', e_cheater = False\<rparr>],
      deaths =
        [\<lparr>d_day = 2, d_player = ''Player_2'', d_cause = ''Lava'', d_mode = ''Survival''\<rparr>,
         \<lparr>d_day = 3, d_player = ''Player_1'', d_cause = ''Void'', d_mode = ''Survival''\<rparr>]\<rparr>"

definition demo_params :: params where
  "demo_params =
     \<lparr>mode = ''Survival'', day_range = (1, 2), selected_biomes = [''Forest''],
      selected_resources = [''Iron'', ''Gold''], active_only = True, honest_only = True\<rparr>"

definition wide_params :: params where
  "wide_params =
     \<lparr>mode = ''Survival'', day_range = (1, 3), selected_biomes = [''Desert'', ''Forest''],
      selected_resources = [''Coal'', ''Gold'', ''Iron''], active_only = False,
      honest_only = False\<rparr>"

definition reversed_params :: params where
  "reversed_params =
     \<lparr>mode = ''Survival'', day_range = (5, 1), selected_biomes = [''Desert'', ''Forest''],
      selected_resources = [''Coal'', ''Gold'', ''Iron''], active_only = False,
      honest_only = False\<rparr>"

definition unknown_mode_params :: params where
  "unknown_mode_params =
     \<lparr>mode = ''Peaceful'', day_range = (1, 3), selected_biomes = [''Desert'', ''Forest''],
      selected_resources = [''Coal'', ''Gold'', ''Iron''], active_only = False,
      honest_only = False\<rparr>"

definition quiet_params :: params where
  "quiet_params =
     \<lparr>mode = ''Survival'', day_range = (3, 3), selected_biomes = [''Desert'', ''Forest''],
      selected_resources = [''Coal'', ''Gold'', ''Iron''], active_only = False,
      honest_only = False\<rparr>"

definition ten_five :: tables where
  "ten_five =
     \<lparr>activity =
        map (\<lambda>k. \<lparr>a_day = 1, a_player = k, a_hours_played = 1, a_style = ''Miner'',
                   a_mode = ''Survival''\<rparr>) [''A'', ''B'', ''C'', ''D'', ''E''],
      mining = [],
      economy = [],
      deaths =
        replicate 10 \<lparr>d_day = 1, d_player = ''A'', d_cause = ''Fall'', d_mode = ''Survival''\<rparr>\<rparr>"

definition tied_rows :: "activity_row list" where
  "tied_rows =
     [\<lparr>a_day = 1, a_player = ''Player_1'', a_hours_played = 3, a_style = ''Miner'',
       a_mode = ''Survival''\<rparr>,
      \<lparr>a_day = 1, a_player = ''Player_2'', a_hours_played = 3, a_style = ''Miner'',
       a_mode = ''Survival''\<rparr>]"

text \<open>Twenty players with one row of 3 hours each.\<close>

definition twenty_tied :: "activity_row list" where
  "twenty_tied =
     map (\<lambda>k. \<lparr>a_day = 1, a_player = k, a_hours_played = 3, a_style = ''Miner'',
                a_mode = ''Survival''\<rparr>)
       [''P01'', ''P02'', ''P03'', ''P04'', ''P05'', ''P06'', ''P07'', ''P08'', ''P09'', ''P10'',
        ''P11'', ''P12'', ''P13'', ''P14'', ''P15'', ''P16'', ''P17'', ''P18'', ''P19'', ''P20'']"




section \<open>Verified properties\<close>

subsection \<open>Filtering\<close>

text \<open>
  Claim C2. The Activity filter keeps exactly the rows with
  \<open>day_lo \<le> day \<le> day_hi\<close> whose mode is the selected mode and, when \<open>active_only\<close>
  is set, whose \<open>hours_played\<close> exceeds 2; it keeps them in their order and keeps no
  other row.
\<close>

theorem activity_filter_exact:
  "activity_filter p t =
     filter (\<lambda>r. fst (day_range p) \<le> a_day r \<and> a_day r \<le> snd (day_range p) \<and>
                 a_mode r = mode p \<and> (active_only p \<longrightarrow> 2 < a_hours_played r)) t"
  by (cases "active_only p") (simp_all add: activity_filter_def between_def conj_ac)

theorem activity_filter_exact_witness:
  "activity_filter demo_params (activity demo_raw) =
     [\<lparr>a_day = 1, a_player = ''Player_1'', a_hours_played = 5, a_style = ''Miner'', a_mode = ''Survival''\<rparr>]"
  using activity_filter_exact [of demo_params "activity demo_raw"]
  by (simp add: demo_params_def demo_raw_def)

text \<open>
  Claim C3. The Mining filter keeps exactly the rows whose day lies in the inclusive day
  range, whose mode is the selected mode, whose biome is among the selected biomes and
  whose resource is among the selected resources.
\<close>

theorem mining_filter_exact:
  "mining_filter p t =
     filter (\<lambda>r. fst (day_range p) \<le> m_day r \<and> m_day r \<le> snd (day_range p) \<and>
                 m_mode r = mode p \<and> m_biome r \<in> set (selected_biomes p) \<and>
                 m_resource r \<in> set (selected_resources p)) t"
  by (simp add: mining_filter_def between_def isin_def conj_ac)

lemma length_activity_filter: "length (activity_filter p t) \<le> length t"
  by (simp add: activity_filter_def Let_def le_trans [OF length_filter_le length_filter_le])

lemma length_economy_filter: "length (economy_filter p t) \<le> length t"
  by (simp add: economy_filter_def Let_def le_trans [OF length_filter_le length_filter_le])

lemma activity_filter_widest:
  assumes "day_range p = (1, max_days)" "\<not> active_only p"
    and "\<forall>r \<in> set t. 1 \<le> a_day r \<and> a_day r \<le> max_days"
  shows "activity_filter p t = filter (\<lambda>r. a_mode r = mode p) t"
  using assms by (auto simp: activity_filter_def between_def intro: filter_cong)

lemma economy_filter_widest:
  assumes "day_range p = (1, max_days)" "\<not> honest_only p"
    and "\<forall>r \<in> set t. 1 \<le> e_day r \<and> e_day r \<le> max_days"
  shows "economy_filter p t = filter (\<lambda>r. e_mode r = mode p) t"
  using assms by (auto simp: economy_filter_def between_def intro: filter_cong)

lemma deaths_filter_widest:
  assumes "day_range p = (1, max_days)"
    and "\<forall>r \<in> set t. 1 \<le> d_day r \<and> d_day r \<le> max_days"
  shows "deaths_filter p t = filter (\<lambda>r. d_mode r = mode p) t"
  using assms by (auto simp: deaths_filter_def between_def intro: filter_cong)

lemma mining_filter_widest:
  assumes "day_range p = (1, max_days)"
    and "selected_biomes p = biome_options t" "selected_resources p = resource_options t"
    and "\<forall>r \<in> set t. 1 \<le> m_day r \<and> m_day r \<le> max_days"
  shows "mining_filter p t = filter (\<lambda>r. m_mode r = mode p) t"
  using assms
  by (auto simp: mining_filter_def between_def isin_def biome_options_def
      resource_options_def intro: filter_cong)

text \<open>
  Claim C7. Each filtered table has at most as many rows as its raw table; and with the
  widest day range \<open>(1, max_days)\<close>, all biome and resource options selected and both
  flags off, filtering raw tables whose days lie in \<open>1..max_days\<close> returns exactly the
  rows of the selected mode.
\<close>

theorem filter_monotone_and_full:
  assumes "global_filtering p raw = Inr f"
  shows "length (activity f) \<le> length (activity raw) \<and>
         length (mining f) \<le> length (mining raw) \<and>
         length (economy f) \<le> length (economy raw) \<and>
         length (deaths f) \<le> length (deaths raw) \<and>
         (widest_no_flags p raw max_days \<and> days_within raw max_days
            \<longrightarrow> f = mode_subset (mode p) raw)"
proof -
  from assms have f: "f = filter_tables p raw"
    by (simp add: global_filtering_def)
  have "length (activity f) \<le> length (activity raw)"
    by (simp add: f filter_tables_def length_activity_filter)
  moreover have "length (mining f) \<le> length (mining raw)"
    by (simp add: f filter_tables_def mining_filter_def)
  moreover have "length (economy f) \<le> length (economy raw)"
    by (simp add: f filter_tables_def length_economy_filter)
  moreover have "length (deaths f) \<le> length (deaths raw)"
    by (simp add: f filter_tables_def deaths_filter_def)
  moreover have "f = mode_subset (mode p) raw"
    if "widest_no_flags p raw max_days" "days_within raw max_days"
    using that unfolding f filter_tables_def mode_subset_def widest_no_flags_def days_within_def
    by (simp add: activity_filter_widest mining_filter_widest economy_filter_widest
        deaths_filter_widest)
  ultimately show ?thesis by blast
qed

lemma activity_filter_idem: "activity_filter p (activity_filter p t) = activity_filter p t"
  by (simp add: activity_filter_def Let_def conj_ac)

lemma mining_filter_idem: "mining_filter p (mining_filter p t) = mining_filter p t"
  by (simp add: mining_filter_def conj_ac)

lemma economy_filter_idem: "economy_filter p (economy_filter p t) = economy_filter p t"
  by (simp add: economy_filter_def Let_def conj_ac)

lemma deaths_filter_idem: "deaths_filter p (deaths_filter p t) = deaths_filter p t"
  by (simp add: deaths_filter_def conj_ac)

text \<open>
  Claim C8. Filtering is idempotent: filtering the filtered tables again with the same
  parameters returns them unchanged.
\<close>

theorem filtering_idempotent:
  assumes "global_filtering p raw = Inr f"
  shows "global_filtering p f = Inr f"
proof -
  from assms have f: "f = filter_tables p raw"
    by (simp add: global_filtering_def)
  show ?thesis
    by (simp add: global_filtering_def f filter_tables_def activity_filter_idem
        mining_filter_idem economy_filter_idem deaths_filter_idem)
qed


theorem mining_filter_exact_witness:
  "mining_filter demo_params (mining demo_raw) =
     [\<lparr>m_day = 1, m_player = ''Player_1'', m_resource = ''Iron'', m_y_level = -10,
       m_biome = ''Forest'', m_mode = ''Survival''\<rparr>]"
  using mining_filter_exact [of demo_params "mining demo_raw"]
  by (simp add: demo_params_def demo_raw_def)

lemma wide_params_widest: "widest_no_flags wide_params demo_raw 3"
  by (simp add: widest_no_flags_def wide_params_def demo_raw_def biome_options_def
      resource_options_def)

lemma demo_raw_days: "days_within demo_raw 3"
  by (simp add: days_within_def demo_raw_def)

theorem filter_monotone_and_full_witness:
  "global_filtering wide_params demo_raw = Inr (mode_subset ''Survival'' demo_raw) \<and>
   length (activity (mode_subset ''Survival'' demo_raw)) \<le> length (activity demo_raw) \<and>
   length (mining (mode_subset ''Survival'' demo_raw)) \<le> length (mining demo_raw) \<and>
   length (economy (mode_subset ''Survival'' demo_raw)) \<le> length (economy demo_raw) \<and>
   length (deaths (mode_subset ''Survival'' demo_raw)) \<le> length (deaths demo_raw)"
proof -
  have run: "global_filtering wide_params demo_raw = Inr (filter_tables wide_params demo_raw)"
    by (simp add: global_filtering_def)
  have m: "mode wide_params = ''Survival''"
    by (simp add: wide_params_def)
  note full = filter_monotone_and_full [OF run, of 3]
  from full wide_params_widest demo_raw_days
  have eq: "filter_tables wide_params demo_raw = mode_subset ''Survival'' demo_raw"
    by (simp add: m)
  from full show ?thesis
    unfolding eq by (simp add: global_filtering_def eq)
qed

theorem filtering_idempotent_witness:
  "global_filtering demo_params demo_raw = Inr (filter_tables demo_params demo_raw) \<and>
   global_filtering demo_params (filter_tables demo_params demo_raw) =
     Inr (filter_tables demo_params demo_raw)"
proof -
  have run: "global_filtering demo_params demo_raw = Inr (filter_tables demo_params demo_raw)"
    by (simp add: global_filtering_def)
  from filtering_idempotent [OF run] run show ?thesis
    by simp
qed

text \<open>
  Claim C5 as stated (a reversed day range or an unknown mode is rejected with a validation
  error) fails: both parameter sets below are accepted and yield four empty tables.
\<close>

theorem filter_rejects_counterexample:
  "global_filtering reversed_params demo_raw = Inr no_rows \<and>
   global_filtering unknown_mode_params demo_raw = Inr no_rows"
  by (simp add: global_filtering_def filter_tables_def activity_filter_def mining_filter_def
      economy_filter_def deaths_filter_def between_def isin_def reversed_params_def
      unknown_mode_params_def demo_raw_def no_rows_def)

text \<open>
  Claim C5, as the code has it. No parameter set is rejected: the filtering block always
  returns tables. With \<open>day_lo > day_hi\<close>, or with a mode that no row carries, the four
  filtered tables are empty.
\<close>

theorem filter_never_rejects:
  "\<exists>f. global_filtering p raw = Inr f \<and>
       (snd (day_range p) < fst (day_range p) \<or> mode_absent (mode p) raw \<longrightarrow> f = no_rows)"
proof -
  have "filter_tables p raw = no_rows"
    if "snd (day_range p) < fst (day_range p) \<or> mode_absent (mode p) raw"
    using that
    by (auto simp: filter_tables_def activity_filter_def mining_filter_def economy_filter_def
        deaths_filter_def between_def no_rows_def mode_absent_def filter_empty_conv)
  then show ?thesis
    by (simp add: global_filtering_def)
qed

theorem filter_never_rejects_witness:
  "snd (day_range reversed_params) < fst (day_range reversed_params) \<and>
   mode_absent (mode unknown_mode_params) demo_raw \<and>
   global_filtering reversed_params demo_raw = Inr no_rows \<and>
   global_filtering unknown_mode_params demo_raw = Inr no_rows"
proof -
  have r: "snd (day_range reversed_params) < fst (day_range reversed_params)"
    by (simp add: reversed_params_def)
  have u: "mode_absent (mode unknown_mode_params) demo_raw"
    by (simp add: mode_absent_def unknown_mode_params_def demo_raw_def)
  from filter_never_rejects [of reversed_params demo_raw]
    filter_never_rejects [of unknown_mode_params demo_raw] r u
  show ?thesis by auto
qed

subsection \<open>Sorting routines\<close>

lemma stable_sort_values_spec:
  "sort_values_spec (stable_sort_values :: ('k, 'v::linorder) sort_values)"
proof -
  have "descending (stable_sort_values xs)" for xs :: "('k \<times> 'v::linorder) list"
  proof -
    have "sorted (map snd (sort_key snd (rev xs)))"
      by (rule sorted_sort_key)
    then show ?thesis
      by (simp add: descending_def stable_sort_values_def sorted_wrt_rev sorted_map)
  qed
  then show ?thesis
    by (simp add: sort_values_spec_def stable_sort_values_def)
qed


lemma sort_values_nonempty:
  assumes "sort_values_spec srt" "xs \<noteq> []"
  shows "srt xs \<noteq> []"
proof
  assume "srt xs = []"
  moreover from assms(1) have "mset (srt xs) = mset xs"
    by (simp add: sort_values_spec_def)
  ultimately show False using assms(2) by simp
qed

lemma idxmax_nonempty: "xs \<noteq> [] \<Longrightarrow> \<exists>l. idxmax xs = Inr l"
  by (cases xs) simp_all

lemma unique_nonempty: "xs \<noteq> [] \<Longrightarrow> unique xs \<noteq> []"
  by (simp add: unique_def)

lemma top_value_total:
  assumes "sort_values_spec srt" "col \<noteq> []"
  shows "\<exists>l. idxmax (value_counts srt col) = Inr l"
proof -
  from assms(2) have "map (\<lambda>v. (v, count_list col v)) (unique col) \<noteq> []"
    by (simp add: unique_nonempty)
  with assms(1) have "value_counts srt col \<noteq> []"
    unfolding value_counts_def by (rule sort_values_nonempty)
  then show ?thesis by (rule idxmax_nonempty)
qed

subsection \<open>Metrics\<close>

lemma avg_playtime_total:
  "\<exists>a. avg_playtime f = Inr a \<and> (activity f = [] \<longrightarrow> a = 0)"
  by (simp add: avg_playtime_def truediv_def unique_players_def nunique_def)

lemma chaos_index_total: "\<exists>c. chaos_index f = Inr c"
  by (simp add: chaos_index_def truediv_def)

lemma top_biome_total:
  assumes "sort_values_spec srt"
  shows "\<exists>b. top_biome srt f = Inr b \<and> (mining f = [] \<longrightarrow> b = dash)"
proof (cases "mining f = []")
  case True
  then show ?thesis by (simp add: top_biome_def)
next
  case False
  then have "map m_biome (mining f) \<noteq> []" by simp
  from top_value_total [OF assms this] False show ?thesis
    by (simp add: top_biome_def)
qed

lemma top_resource_total:
  assumes "sort_values_spec srt"
  shows "\<exists>b. top_resource srt f = Inr b \<and> (mining f = [] \<longrightarrow> b = dash)"
proof (cases "mining f = []")
  case True
  then show ?thesis by (simp add: top_resource_def)
next
  case False
  then have "map m_resource (mining f) \<noteq> []" by simp
  from top_value_total [OF assms this] False show ?thesis
    by (simp add: top_resource_def)
qed

text \<open>
  Claim C4. Whatever the filtered tables are, the Statistics block returns its metrics and
  raises nothing (no division by zero, no failing lookup), for every sorting routine that
  meets \<open>sort_values_spec\<close>. On an empty Activity table \<open>unique_players\<close> and the
  average playtime are 0; on an empty Mining table \<open>top_biome\<close> and \<open>top_resource\<close> are
  the placeholder dash.
\<close>

theorem kpis_never_fail:
  assumes "sort_values_spec srt"
  shows "\<exists>k. statistics_tab srt f = Inr k \<and>
           (activity f = [] \<longrightarrow> kpi_unique_players k = 0 \<and> kpi_avg_playtime k = 0) \<and>
           (mining f = [] \<longrightarrow> kpi_top_biome k = dash \<and> kpi_top_resource k = dash)"
proof -
  obtain a where a: "avg_playtime f = Inr a" "activity f = [] \<longrightarrow> a = 0"
    using avg_playtime_total by blast
  obtain c where c: "chaos_index f = Inr c"
    using chaos_index_total by blast
  obtain b where b: "top_biome srt f = Inr b" "mining f = [] \<longrightarrow> b = dash"
    using top_biome_total [OF assms] by blast
  obtain r where r: "top_resource srt f = Inr r" "mining f = [] \<longrightarrow> r = dash"
    using top_resource_total [OF assms] by blast
  have u: "activity f = [] \<longrightarrow> unique_players f = 0"
    by (simp add: unique_players_def nunique_def)
  show ?thesis
    using a b r u by (simp add: statistics_tab_def c)
qed

theorem kpis_never_fail_witness:
  "statistics_tab stable_sort_values no_rows =
     Inr \<lparr>kpi_unique_players = 0, kpi_total_playtime = 0, kpi_avg_playtime = 0,
          kpi_mining_events = 0, kpi_deaths_count = 0, kpi_chaos_index = 0,
          kpi_top_biome = dash, kpi_top_resource = dash\<rparr>"
proof -
  from kpis_never_fail [OF stable_sort_values_spec, of no_rows]
  obtain k where k: "statistics_tab stable_sort_values no_rows = Inr k"
    "kpi_unique_players k = 0" "kpi_avg_playtime k = 0"
    "kpi_top_biome k = dash" "kpi_top_resource k = dash"
    by (auto simp: no_rows_def)
  have "kpi_total_playtime k = 0 \<and> kpi_mining_events k = 0 \<and> kpi_deaths_count k = 0 \<and>
        kpi_chaos_index k = 0"
    using k(1)
    by (auto simp: statistics_tab_def no_rows_def avg_playtime_def chaos_index_def
        top_biome_def top_resource_def unique_players_def nunique_def total_playtime_def
        mining_events_def deaths_count_def)
  with k show ?thesis by simp
qed

text \<open>
  Claim C1, as the code has it. The Chaos tab's index is
  \<open>deaths_count / max(unique_players, 1)\<close> on every input. The Statistics tab's index is
  the same number whenever \<open>unique_players > 0\<close> or \<open>deaths_count = 0\<close>. With 10 deaths and
  5 players both are 2. With \<open>unique_players = 0\<close> the Statistics tab shows 0 and the Chaos
  tab shows \<open>deaths_count\<close>.
\<close>

theorem chaos_index_two_forms:
  "chaos_index_tab5 f = Inr (real (deaths_count f) / real (max (unique_players f) 1)) \<and>
   (0 < unique_players f \<or> deaths_count f = 0 \<longrightarrow>
      chaos_index f = Inr (real (deaths_count f) / real (max (unique_players f) 1))) \<and>
   (deaths_count f = 10 \<and> unique_players f = 5 \<longrightarrow>
      chaos_index f = Inr 2 \<and> chaos_index_tab5 f = Inr 2) \<and>
   (unique_players f = 0 \<longrightarrow>
      chaos_index f = Inr 0 \<and> chaos_index_tab5 f = Inr (real (deaths_count f)))"
proof -
  have tab5: "chaos_index_tab5 f = Inr (real (deaths_count f) / real (max (unique_players f) 1))"
    by (simp add: chaos_index_tab5_def deaths_count_def unique_players_def truediv_def)
  have stats: "chaos_index f = Inr (real (deaths_count f) / real (max (unique_players f) 1))"
    if "0 < unique_players f \<or> deaths_count f = 0"
    using that by (auto simp: chaos_index_def truediv_def max_def)
  have ten: "chaos_index f = Inr 2 \<and> chaos_index_tab5 f = Inr 2"
    if "deaths_count f = 10 \<and> unique_players f = 5"
    using that stats tab5 by simp
  have zero: "chaos_index f = Inr 0 \<and> chaos_index_tab5 f = Inr (real (deaths_count f))"
    if "unique_players f = 0"
    using that tab5 by (simp add: chaos_index_def)
  from tab5 stats ten zero show ?thesis by blast
qed

text \<open>
  Claim C1 as stated fails where no player is active but deaths are recorded: filtering
  the demonstration tables to day 3 leaves no Activity row and one Deaths row. The Chaos
  tab then shows 1, not 0; the Statistics tab shows 0, which is not
  \<open>deaths_count / max(unique_players, 1) = 1\<close>.
\<close>

theorem chaos_index_zero_counterexample:
  "unique_players (filter_tables quiet_params demo_raw) = 0 \<and>
   deaths_count (filter_tables quiet_params demo_raw) = 1 \<and>
   chaos_index_tab5 (filter_tables quiet_params demo_raw) = Inr 1 \<and>
   chaos_index (filter_tables quiet_params demo_raw) = Inr 0"
  by (simp add: unique_players_def deaths_count_def chaos_index_tab5_def chaos_index_def
      truediv_def nunique_def filter_tables_def activity_filter_def deaths_filter_def
      between_def quiet_params_def demo_raw_def)

theorem chaos_index_two_forms_witness:
  "unique_players ten_five = 5 \<and> deaths_count ten_five = 10 \<and>
   chaos_index ten_five = Inr 2 \<and> chaos_index_tab5 ten_five = Inr 2 \<and>
   unique_players (filter_tables quiet_params demo_raw) = 0 \<and>
   chaos_index (filter_tables quiet_params demo_raw) = Inr 0 \<and>
   chaos_index_tab5 (filter_tables quiet_params demo_raw) = Inr 1"
proof -
  have five: "unique_players ten_five = 5" and ten: "deaths_count ten_five = 10"
    by (simp_all add: unique_players_def deaths_count_def nunique_def ten_five_def)
  have none: "unique_players (filter_tables quiet_params demo_raw) = 0"
    and one: "deaths_count (filter_tables quiet_params demo_raw) = 1"
    by (simp_all add: unique_players_def deaths_count_def nunique_def filter_tables_def
        activity_filter_def deaths_filter_def between_def quiet_params_def demo_raw_def)
  from chaos_index_two_forms [of ten_five]
    chaos_index_two_forms [of "filter_tables quiet_params demo_raw"]
  show ?thesis
    by (simp add: five ten none one)
qed

subsection \<open>Top players\<close>




















text \<open>
  numpy's quicksort on small inputs: two players of equal total come out in the order of
  the grouped table, whichever comes first in the Activity table. Heapsort is not
  reached.
\<close>

lemma top_players_two_tied:
  "top_players (numpy_sort_values hs) sum_list tied_rows =
     [(''Player_1'', 3), (''Player_2'', 3)]"
  "top_players (numpy_sort_values hs) sum_list (rev tied_rows) =
     [(''Player_1'', 3), (''Player_2'', 3)]"
  by (simp_all add: top_players_def groupby_player_sum_def tied_rows_def
      numpy_sort_values_def argsort_quicksort_def npy_get_msb.simps insertion_sort_def)

text \<open>On the demonstration table numpy's quicksort and the stable routine give the same
  top-players table.\<close>

lemma top_players_demo_raw:
  "top_players (numpy_sort_values hs) sum_list (activity demo_raw) =
     top_players stable_sort_values sum_list (activity demo_raw)"
  by (simp add: top_players_def groupby_player_sum_def demo_raw_def stable_sort_values_def
      numpy_sort_values_def argsort_quicksort_def npy_get_msb.simps insertion_sort_def)

text \<open>On twenty players of equal total the routine partitions once and heapsort is not
  reached: the table is the same for every \<open>hs\<close>.\<close>

lemma top_players_twenty_tied:
  "top_players (numpy_sort_values hs) sum_list twenty_tied =
     top_players (numpy_sort_values no_heapsort) sum_list twenty_tied"
  by code_simp


subsection \<open>Data generation\<close>

lemma bindE_seed: "bindE (seed R 42) k g = k () (rng_seed R 42)"
  by (simp add: bindE_def seed_def)

lemma bindE_randint_none: "bindE (randint R low high 0) k g = k [] g"
  by (simp add: bindE_def randint_def)

lemma bindE_randint_rejects:
  "sz \<noteq> 0 \<Longrightarrow> high \<le> low \<or> sz < 0 \<Longrightarrow> bindE (randint R low high sz) k g = Inl ValueError"
  by (auto simp: bindE_def randint_def)

lemma bindE_randint_draws:
  "0 < sz \<Longrightarrow> low < high \<Longrightarrow>
     bindE (randint R low high sz) k g =
       k (fst (draw (rng_integer R low high) (nat sz) g))
         (snd (draw (rng_integer R low high) (nat sz) g))"
  by (simp add: bindE_def randint_def)

lemma valid_p_uniform: "valid_p a None"
  by (simp add: valid_p_def)

lemma valid_p_weights: "valid_p a (Some ps) =
    (length ps = length a \<and> list_all (\<lambda>x. 0 \<le> x) ps \<and> sum_list ps = 1)"
  by (simp add: valid_p_def)

lemmas valid_p_simps = valid_p_uniform valid_p_weights modes_def resources_def

lemma bindE_choice_none: "valid_p a p \<Longrightarrow> bindE (choice pick a 0 p) k g = k [] g"
  by (simp add: bindE_def choice_def)

lemma bindE_choice_rejects_empty:
  "sz \<noteq> 0 \<Longrightarrow> bindE (choice pick [] sz p) k g = Inl ValueError"
  by (simp add: bindE_def choice_def)

lemma bindE_choice_draws:
  "0 \<le> sz \<Longrightarrow> a \<noteq> [] \<Longrightarrow> valid_p a p \<Longrightarrow>
     bindE (choice pick a sz p) k g =
       k (fst (draw (pick a p) (nat sz) g)) (snd (draw (pick a p) (nat sz) g))"
  by (simp add: bindE_def choice_def)

lemma bindE_gamma_draws:
  "0 \<le> sz \<Longrightarrow> 0 \<le> shape \<Longrightarrow> 0 \<le> scale \<Longrightarrow>
     bindE (gamma R shape scale sz) k g =
       k (fst (draw (rng_gamma R shape scale) (nat sz) g))
         (snd (draw (rng_gamma R shape scale) (nat sz) g))"
  by (simp add: bindE_def gamma_def)

lemma bindE_lognormal_draws:
  "0 \<le> sz \<Longrightarrow> 0 \<le> sigma \<Longrightarrow>
     bindE (lognormal R mean sigma sz) k g =
       k (fst (draw (rng_lognormal R mean sigma) (nat sz) g))
         (snd (draw (rng_lognormal R mean sigma) (nat sz) g))"
  by (simp add: bindE_def lognormal_def)

lemma length_draw: "length (fst (draw f k g)) = k"
  by (induction k arbitrary: g) (simp_all add: Let_def)

lemma nonempty_lists:
  "styles \<noteq> []" "biomes \<noteq> []" "resources \<noteq> []" "death_causes \<noteq> []" "modes \<noteq> []"
  by (simp_all add: styles_def biomes_def resources_def death_causes_def modes_def)

text \<open>With positive arguments the generator returns tables, of the sizes the script asks
  for; so the failure below is not a failure of every call.\<close>

lemma generate_data_succeeds:
  assumes "0 < n_players" "0 < max_days"
  shows "\<exists>t g'. generate_data R n_players max_days g = Inr (t, g') \<and>
           length (activity t) = nat (n_players * max_days) \<and>
           length (mining t) = 12000 \<and>
           length (economy t) = nat (n_players * 8) \<and>
           length (deaths t) = 4000"
proof -
  note steps = bindE_seed Let_def bindE_randint_draws bindE_choice_draws bindE_gamma_draws
    bindE_lognormal_draws valid_p_uniform valid_p_weights nonempty_lists
  note frames = activity_frame_def mining_frame_def economy_frame_def deaths_frame_def
  show ?thesis
    using assms unfolding generate_data_def
    by (simp add: steps frames length_draw modes_def resources_def)
qed

text \<open>
  Claim C6. A call of \<open>generate_data\<close> with a non-positive \<open>n_players\<close> or a
  non-positive \<open>max_days\<close> returns no tables: it ends with \<open>ValueError\<close>, raised by the
  argument checks of the numpy calls (a negative size, an empty range of days, or an empty
  list of players to choose from).
\<close>

theorem generate_data_rejects_nonpositive:
  assumes "n_players \<le> 0 \<or> max_days \<le> 0"
  shows "generate_data R n_players max_days g = Inl ValueError"
proof (cases "n_players * max_days = 0")
  case False
  have "max_days + 1 \<le> 1 \<or> n_players * max_days < 0"
  proof (cases "max_days \<le> 0")
    case True
    then show ?thesis by simp
  next
    case pos: False
    with assms False have "n_players < 0" by auto
    with pos have "n_players * max_days < 0"
      by (simp add: mult_neg_pos)
    then show ?thesis ..
  qed
  with False show ?thesis
    by (simp add: generate_data_def bindE_seed Let_def bindE_randint_rejects)
next
  case True
  note activity_empty = bindE_seed True bindE_randint_none bindE_choice_none valid_p_simps
    bindE_gamma_draws draw.simps fst_conv snd_conv nat_0 Let_def
  show ?thesis
  proof (cases "max_days \<le> 0")
    case True
    then have "max_days + 1 \<le> 1" by simp
    then show ?thesis
      unfolding generate_data_def
      by (simp add: activity_empty bindE_randint_rejects)
  next
    case False
    with \<open>n_players * max_days = 0\<close> have n: "n_players = 0" by simp
    from False have d: "1 < max_days + 1" by simp
    show ?thesis
      unfolding generate_data_def
      by (simp add: activity_empty n bindE_randint_draws [OF _ d] bindE_choice_rejects_empty)
  qed
qed

theorem generate_data_rejects_nonpositive_witness:
  "generate_data counter_rng 0 365 (7::nat) = Inl ValueError \<and>
   generate_data counter_rng 120 0 (7::nat) = Inl ValueError \<and>
   generate_data counter_rng (- 3) 365 (7::nat) = Inl ValueError \<and>
   generate_data counter_rng (- 2) (- 3) (7::nat) = Inl ValueError"
  using generate_data_rejects_nonpositive [of 0 365 counter_rng 7]
    generate_data_rejects_nonpositive [of 120 0 counter_rng 7]
    generate_data_rejects_nonpositive [of "- 3" 365 counter_rng 7]
    generate_data_rejects_nonpositive [of "- 2" "- 3" counter_rng 7]
  by simp

text \<open>
  Claim C10. \<open>generate_data\<close> has no seed argument and first of all reseeds the
  generator with the constant 42. Whatever the state of the generator before the call,
  two calls with the same \<open>n_players\<close> and \<open>max_days\<close> give the same result (the same
  tables, or the same exception) and leave the same state behind.
\<close>

theorem generate_data_ignores_state:
  "generate_data R n_players max_days g = generate_data R n_players max_days g'"
  by (simp only: generate_data_def bindE_seed)

end
